theory Spec2Isabelle
  imports Main
begin

section \<open>The renderer-side event bridge (renderer/event.ts)\<close>

text \<open>
  JavaScript functions are objects and \<open>==\<close> on two of them is reference identity.
  \<open>Callback k\<close> is the function object with reference \<open>k\<close> that a caller passes in;
  \<open>Wrapper k cb\<close> is the \<open>k\<close>-th anonymous function object created by the function
  expression of \<open>addExtensionListener\<close> (lines 19 to 24), whose closure holds \<open>cb\<close>.
  A wrapper is a new object at every call, so it is equal to no caller's function.
\<close>

datatype fn = Callback nat | Wrapper nat fn

text \<open>The two messages the module sends with \<open>ipcRenderer.send\<close>: channel, extension id, name.\<close>

datatype wire = CrxAddListener string string | CrxRemoveListener string string

text \<open>
  The module state: \<open>listenerMap\<close> (a \<open>Map<string, Function[]>\<close>), the messages sent so
  far in order, the listener arrays of the \<open>ipcRenderer\<close> event emitter by channel, and the
  number of wrapper objects created so far.
\<close>

record renderer =
  listenerMap :: "string \<rightharpoonup> fn list"
  sent :: "wire list"
  emitter :: "string \<Rightarrow> fn list"
  closures :: nat

definition initial_renderer :: renderer where
  "initial_renderer = \<lparr>listenerMap = Map.empty, sent = [], emitter = (\<lambda>_. []), closures = 0\<rparr>"

definition formatIpcName :: "string \<Rightarrow> string" where
  "formatIpcName name = ''crx-'' @ name"

text \<open>\<open>Array.prototype.findIndex\<close>: the index of the first element satisfying the test, or -1.\<close>

fun findIndex :: "('a \<Rightarrow> bool) \<Rightarrow> 'a list \<Rightarrow> int" where
  "findIndex p [] = -1"
| "findIndex p (x # xs) = (if p x then 0 else (let i = findIndex p xs in if i = -1 then -1 else i + 1))"

text \<open>\<open>xs.splice(i, 1)\<close> for an index inside the array: the element at \<open>i\<close> is taken out.\<close>

definition splice1 :: "'a list \<Rightarrow> nat \<Rightarrow> 'a list" where
  "splice1 xs i = take i xs @ drop (Suc i) xs"

text \<open>
  Node's \<open>EventEmitter\<close>: \<open>addListener\<close> appends to the channel's array;
  \<open>removeListener\<close> searches the array from its end for an element identical to the
  given function and takes out that one element (none when there is no such element);
  \<open>emit\<close> calls the elements in order.
\<close>

definition ee_addListener :: "(string \<Rightarrow> fn list) \<Rightarrow> string \<Rightarrow> fn \<Rightarrow> (string \<Rightarrow> fn list)" where
  "ee_addListener e channel f = e(channel := e channel @ [f])"

definition ee_removeListener :: "(string \<Rightarrow> fn list) \<Rightarrow> string \<Rightarrow> fn \<Rightarrow> (string \<Rightarrow> fn list)" where
  "ee_removeListener e channel f = e(channel := rev (remove1 f (rev (e channel))))"

definition addExtensionListener :: "string \<Rightarrow> string \<Rightarrow> fn \<Rightarrow> renderer \<Rightarrow> renderer" where
  "addExtensionListener extensionId name callback st =
     (let (listeners, st1) =
            (case listenerMap st name of
               None \<Rightarrow> ([], st\<lparr>sent := sent st @ [CrxAddListener extensionId name],
                               listenerMap := (listenerMap st)(name \<mapsto> [])\<rparr>)
             | Some ls \<Rightarrow> (ls, st));
          \<comment> \<open>\<open>listeners.push(callback)\<close> changes the array object the map holds\<close>
          st2 = st1\<lparr>listenerMap := (listenerMap st1)(name \<mapsto> listeners @ [callback])\<rparr>
      in st2\<lparr>emitter := ee_addListener (emitter st2) (formatIpcName name)
                           (Wrapper (closures st2) callback),
             closures := Suc (closures st2)\<rparr>)"

definition removeExtensionListener :: "string \<Rightarrow> string \<Rightarrow> fn \<Rightarrow> renderer \<Rightarrow> renderer" where
  "removeExtensionListener extensionId name callback st =
     (let st1 =
            (case listenerMap st name of
               None \<Rightarrow> st
             | Some listeners \<Rightarrow>
                 \<comment> \<open>line 31: the entry is deleted first; \<open>listeners\<close> is from then on a
                     local array that the map no longer holds\<close>
                 (let st' = st\<lparr>listenerMap := (listenerMap st)(name := None)\<rparr>;
                      callbackIndex = findIndex (\<lambda>element. element = callback) listeners;
                      listeners' = (if callbackIndex > -1
                                    then splice1 listeners (nat callbackIndex) else listeners)
                  in if length listeners' = 0
                     then st'\<lparr>sent := sent st' @ [CrxRemoveListener extensionId name]\<rparr>
                     else st'))
      in st1\<lparr>emitter := ee_removeListener (emitter st1) (formatIpcName name) callback\<rparr>)"

definition hasExtensionListener :: "string \<Rightarrow> string \<Rightarrow> fn \<Rightarrow> renderer \<Rightarrow> bool" where
  "hasExtensionListener extensionId name callback st =
     (case listenerMap st name of
        None \<Rightarrow> False
      | Some listeners \<Rightarrow> findIndex (\<lambda>element. element = callback) listeners > -1)"

text \<open>
  A host dispatch of \<open>name\<close> arrives as an emit on the channel \<open>formatIpcName name\<close>.
  \<open>calls f\<close> lists the function objects that run when \<open>f\<close> is called, outermost first:
  a wrapper's body calls the callback in its closure. \<open>dispatch\<close> lists what runs for one
  occurrence, every callback taken to return normally.
\<close>

fun calls :: "fn \<Rightarrow> fn list" where
  "calls (Callback k) = [Callback k]"
| "calls (Wrapper k cb) = Wrapper k cb # calls cb"

definition dispatch :: "renderer \<Rightarrow> string \<Rightarrow> fn list" where
  "dispatch st name = concat (map calls (emitter st (formatIpcName name)))"

text \<open>Sequences of calls made by one extension on the bridge.\<close>

datatype bridge_op = Add string fn | Remove string fn

fun bridge_step :: "string \<Rightarrow> renderer \<Rightarrow> bridge_op \<Rightarrow> renderer" where
  "bridge_step extensionId st (Add name cb) = addExtensionListener extensionId name cb st"
| "bridge_step extensionId st (Remove name cb) = removeExtensionListener extensionId name cb st"

definition run_bridge :: "string \<Rightarrow> bridge_op list \<Rightarrow> renderer" where
  "run_bridge extensionId ops = foldl (bridge_step extensionId) initial_renderer ops"

text \<open>
  The host-side subscriptions outstanding for a name: subscribe messages sent for it minus
  unsubscribe messages sent for it. The local callback count of a name is the length of
  its array in \<open>listenerMap\<close>, 0 when the map has no entry.
\<close>

fun is_add_for :: "string \<Rightarrow> wire \<Rightarrow> bool" where
  "is_add_for name (CrxAddListener e n) = (n = name)"
| "is_add_for name (CrxRemoveListener e n) = False"

fun is_remove_for :: "string \<Rightarrow> wire \<Rightarrow> bool" where
  "is_remove_for name (CrxRemoveListener e n) = (n = name)"
| "is_remove_for name (CrxAddListener e n) = False"

definition outstanding :: "renderer \<Rightarrow> string \<Rightarrow> int" where
  "outstanding st name =
     int (length (filter (is_add_for name) (sent st))) -
     int (length (filter (is_remove_for name) (sent st)))"

definition callback_count :: "renderer \<Rightarrow> string \<Rightarrow> nat" where
  "callback_count st name = (case listenerMap st name of None \<Rightarrow> 0 | Some ls \<Rightarrow> length ls)"

section \<open>The browser controller (the shell's main module, src/unnamed/part_000)\<close>

subsection \<open>JavaScript values and errors\<close>

text \<open>
  The fields of a \<open>details\<close> object are untyped: the code tests them with \<open>typeof\<close> and
  for truthiness. The only numbers the code compares are window identifiers, which are
  integers, so \<open>JNum\<close> carries an integer.
\<close>

datatype jsval = JUndefined | JNull | JBool bool | JNum int | JStr string

fun typeof :: "jsval \<Rightarrow> string" where
  "typeof JUndefined = ''undefined''"
| "typeof JNull = ''object''"
| "typeof (JBool b) = ''boolean''"
| "typeof (JNum n) = ''number''"
| "typeof (JStr s) = ''string''"

fun truthy :: "jsval \<Rightarrow> bool" where
  "truthy JUndefined = False"
| "truthy JNull = False"
| "truthy (JBool b) = b"
| "truthy (JNum n) = (n \<noteq> 0)"
| "truthy (JStr s) = (s \<noteq> [])"

text \<open>
  What the module throws: the error of \<open>createTab\<close> (line 198), the error of
  \<open>getParentWindowOfTab\<close> (line 87), the reference error of the language for an
  identifier that no enclosing scope declares, and the type error of \<open>path.join\<close> for an
  argument that is not a string.
\<close>

datatype error =
    WindowNotFound jsval
  | NoParentWindow string
  | ReferenceError string
  | TypeError string
  | FsError "string list"

subsection \<open>What the toolkit reports\<close>

text \<open>
  A \<open>BrowserWindow\<close> object is identified by its \<open>id\<close>. The controller reads three
  things from the toolkit: \<open>isDestroyed()\<close> of a window, the static
  \<open>BrowserWindow.getFocusedWindow()\<close> (a window or null), and the identifiers given to
  new windows and new contents.
\<close>

record electron =
  destroyed :: "nat set"
  focused :: "nat option"
  next_window :: nat
  next_contents :: nat

definition bw_destroy :: "nat \<Rightarrow> electron \<Rightarrow> electron" where
  "bw_destroy w el =
     el\<lparr>destroyed := insert w (destroyed el),
        focused := (if focused el = Some w then None else focused el)\<rparr>"

text \<open>
  A \<open>webContents\<close> as the controller sees it: its identity, its \<open>getType()\<close>, and the
  window the toolkit names as its owner (\<open>BrowserWindow.fromWebContents\<close> for a
  top-level one, \<open>getOwnerBrowserWindow()\<close> for an embedded one), null when none.
\<close>

record web_contents =
  wc_id :: nat
  wc_type :: string
  wc_owner :: "nat option"

subsection \<open>The tab collection\<close>

text \<open>
  Modelled from the spec: the tab collection, class \<open>Tabs\<close> of the module \<open>./tabs\<close>
  required at line 5, whose source is not among the files. The spec gives its contract:
  an ordered collection of tabs with a \<open>selected\<close> pointer, exposing \<open>create()\<close>,
  \<open>select(id)\<close>, \<open>remove(id)\<close> and \<open>destroy()\<close>, and emitting \<open>tab-created\<close> and
  \<open>tab-selected\<close>. A tab has an id, a content handle, the window it lives in and the
  URLs it was asked to load, in order. The spec's invariant of a window fixes the pointer:
  a window has no tab right after its construction and exactly one selected tab once at
  least one tab exists. So \<open>create()\<close> appends one tab with a new id and, when no tab is
  selected, makes that tab the selected one; when a tab is selected already it leaves the
  pointer, since activating the new tab is a step of \<open>createTab\<close> that can be suppressed.
  \<open>select(id)\<close> moves the pointer to a tab of the collection. \<open>remove(id)\<close> is not
  modelled: the contract does not say which tab is selected after the selected one is
  removed.
\<close>

record tab =
  tab_id :: nat
  tab_webContents :: nat
  tab_window :: nat
  loaded :: "jsval list"

record tabs =
  tabs_window :: nat
  tabList :: "tab list"
  selected :: "nat option"

definition tabs_new :: "nat \<Rightarrow> tabs" where
  "tabs_new window = \<lparr>tabs_window = window, tabList = [], selected = None\<rparr>"

definition tabs_create :: "nat \<Rightarrow> tabs \<Rightarrow> tab \<times> tabs" where
  "tabs_create fresh ts =
     (let t = \<lparr>tab_id = fresh, tab_webContents = fresh, tab_window = tabs_window ts, loaded = []\<rparr>
      in (t, ts\<lparr>selected := (case selected ts of None \<Rightarrow> Some fresh | Some s \<Rightarrow> Some s),
                tabList := tabList ts @ [t]\<rparr>))"

definition tabs_get :: "nat \<Rightarrow> tabs \<Rightarrow> tab option" where
  "tabs_get i ts = find (\<lambda>t. tab_id t = i) (tabList ts)"

definition tabs_select :: "nat \<Rightarrow> tabs \<Rightarrow> tab option \<times> tabs" where
  "tabs_select i ts =
     (case tabs_get i ts of
        None \<Rightarrow> (None, ts)
      | Some t \<Rightarrow> (Some t, ts\<lparr>selected := Some i\<rparr>))"

definition tabs_destroy :: "tabs \<Rightarrow> tabs" where
  "tabs_destroy ts = ts\<lparr>tabList := [], selected := None\<rparr>"

definition tab_loadURL :: "jsval \<Rightarrow> tab \<Rightarrow> tab" where
  "tab_loadURL u t = t\<lparr>loaded := loaded t @ [u]\<rparr>"

text \<open>A tab is an object: a change to it shows in the collection that holds it.\<close>

definition tabs_update :: "nat \<Rightarrow> (tab \<Rightarrow> tab) \<Rightarrow> tabs \<Rightarrow> tabs" where
  "tabs_update i f ts = ts\<lparr>tabList := map (\<lambda>t. if tab_id t = i then f t else t) (tabList ts)\<rparr>"

subsection \<open>Windows and the controller\<close>

text \<open>
  \<open>TabbedBrowserWindow\<close>: \<open>this.id\<close> (the id of \<open>this.window\<close>, which stands for the
  window object too), \<open>this.tabs\<close>, and \<open>options.initialUrl\<close>, which the
  \<open>tab-created\<close> handler keeps in its closure.
\<close>

record tabbed_window =
  w_id :: nat
  w_tabs :: tabs
  w_initialUrl :: jsval

text \<open>The calls made on the extensions object by the two handlers of the constructor.\<close>

datatype ext_call = AddTab nat nat | SelectTab nat

text \<open>
  \<open>this.popup\<close>: the contents of \<open>popup.browserWindow\<close> when there is one (the source
  reads it with \<open>?.\<close>) and \<open>popup.parent\<close>.
\<close>

record popup =
  pp_contents :: "nat option"
  pp_parent :: "nat option"

record browser =
  windows :: "tabbed_window list"
  popup :: "popup option"
  electron :: electron
  ext_calls :: "ext_call list"

definition initial_browser :: browser where
  "initial_browser =
     \<lparr>windows = [], popup = None,
      electron = \<lparr>destroyed = {}, focused = None, next_window = 1, next_contents = 1\<rparr>,
      ext_calls = []\<rparr>"

text \<open>
  A \<open>TabbedBrowserWindow\<close> found in \<open>this.windows\<close> is an object: a change to it shows
  in the array. \<open>find\<close> returns the first element with the id, and that one is updated.
\<close>

fun update_window :: "nat \<Rightarrow> (tabbed_window \<Rightarrow> tabbed_window) \<Rightarrow> tabbed_window list \<Rightarrow> tabbed_window list" where
  "update_window i f [] = []"
| "update_window i f (w # ws) = (if w_id w = i then f w # ws else w # update_window i f ws)"

text \<open>
  \<open>win.tabs.create()\<close> on a tracked window, with the \<open>tab-created\<close> handler of the
  constructor (lines 109 to 114), which the collection runs when it emits: the handler
  loads \<open>options.initialUrl\<close> into the tab when that is truthy and reports the tab to the
  extensions object. When the collection selects the tab itself, it emits \<open>tab-selected\<close>
  as for any selection, and the handler of lines 116 to 118 reports it.
\<close>

definition win_tabs_create :: "browser \<Rightarrow> tabbed_window \<Rightarrow> tab \<times> browser" where
  "win_tabs_create st win =
     (let fresh = next_contents (electron st);
          (t, ts) = tabs_create fresh (w_tabs win);
          ts' = (if truthy (w_initialUrl win)
                 then tabs_update (tab_id t) (tab_loadURL (w_initialUrl win)) ts else ts)
      in (t, st\<lparr>windows := update_window (w_id win) (\<lambda>w. w\<lparr>w_tabs := ts'\<rparr>) (windows st),
                electron := (electron st)\<lparr>next_contents := Suc fresh\<rparr>,
                ext_calls := ext_calls st @ [AddTab (tab_webContents t) (tab_window t)]
                               @ (if selected (w_tabs win) = None
                                  then [SelectTab (tab_webContents t)] else [])\<rparr>))"

text \<open>
  \<open>win.tabs.select(id)\<close> with the \<open>tab-selected\<close> handler (lines 116 to 118). The
  window object is read from the state again, since it may have changed since it was found.
\<close>

definition win_tabs_select :: "browser \<Rightarrow> nat \<Rightarrow> nat \<Rightarrow> browser" where
  "win_tabs_select st i tabId =
     (case find (\<lambda>w. w_id w = i) (windows st) of
        None \<Rightarrow> st
      | Some win \<Rightarrow>
          (case tabs_select tabId (w_tabs win) of
             (None, _) \<Rightarrow> st
           | (Some t, ts) \<Rightarrow>
               st\<lparr>windows := update_window i (\<lambda>w. w\<lparr>w_tabs := ts\<rparr>) (windows st),
                  ext_calls := ext_calls st @ [SelectTab (tab_webContents t)]\<rparr>))"

definition win_tab_loadURL :: "browser \<Rightarrow> nat \<Rightarrow> nat \<Rightarrow> jsval \<Rightarrow> browser" where
  "win_tab_loadURL st i tabId u =
     st\<lparr>windows := update_window i (\<lambda>w. w\<lparr>w_tabs := tabs_update tabId (tab_loadURL u) (w_tabs w)\<rparr>)
                     (windows st)\<rparr>"

text \<open>\<open>TabbedBrowserWindow.destroy\<close> (lines 126 to 129): the tabs, then the window.\<close>

definition tbw_destroy :: "browser \<Rightarrow> tabbed_window \<Rightarrow> browser" where
  "tbw_destroy st win =
     st\<lparr>windows := update_window (w_id win) (\<lambda>w. w\<lparr>w_tabs := tabs_destroy (w_tabs w)\<rparr>) (windows st),
        electron := bw_destroy (w_id win) (electron st)\<rparr>"

definition getWindowFromBrowserWindow :: "browser \<Rightarrow> nat \<Rightarrow> tabbed_window option" where
  "getWindowFromBrowserWindow st window =
     (if window \<notin> destroyed (electron st)
      then find (\<lambda>win. w_id win = window) (windows st) else None)"

definition getParentWindowOfTab :: "electron \<Rightarrow> web_contents \<Rightarrow> error + nat option" where
  "getParentWindowOfTab el t =
     (if wc_type t = ''window'' then Inr (wc_owner t)
      else if wc_type t = ''browserView'' \<or> wc_type t = ''webview'' then Inr (wc_owner t)
      else if wc_type t = ''backgroundPage'' then Inr (focused el)
      else Inl (NoParentWindow (wc_type t)))"

definition getWindowFromWebContents :: "browser \<Rightarrow> web_contents \<Rightarrow> error + tabbed_window option" where
  "getWindowFromWebContents st webContents =
     (case (case popup st of
              None \<Rightarrow> getParentWindowOfTab (electron st) webContents
            | Some p \<Rightarrow> if pp_contents p = Some (wc_id webContents) then Inr (pp_parent p)
                        else getParentWindowOfTab (electron st) webContents) of
        Inl e \<Rightarrow> Inl e
      | Inr None \<Rightarrow> Inr None
      | Inr (Some window) \<Rightarrow> Inr (getWindowFromBrowserWindow st window))"

text \<open>
  \<open>Browser.createWindow\<close> (lines 263 to 293): a new \<open>TabbedBrowserWindow\<close> around a new
  \<open>BrowserWindow\<close>, pushed on \<open>this.windows\<close>. This push is the only place where the
  module changes \<open>this.windows\<close>. The first tab is created in a microtask (lines 120 to
  123), after the call has returned: \<open>initial_tab\<close> is that later step. Loading the
  window's own page (line 103) and opening the developer tools (line 289) change nothing
  the controller reads back, and are left out.
\<close>

definition createWindow :: "browser \<Rightarrow> jsval \<Rightarrow> tabbed_window \<times> browser" where
  "createWindow st initialUrl =
     (let i = next_window (electron st);
          win = \<lparr>w_id = i, w_tabs = tabs_new i, w_initialUrl = initialUrl\<rparr>
      in (win, st\<lparr>windows := windows st @ [win],
                  electron := (electron st)\<lparr>next_window := Suc i\<rparr>\<rparr>))"

definition initial_tab :: "browser \<Rightarrow> nat \<Rightarrow> browser" where
  "initial_tab st i =
     (case find (\<lambda>w. w_id w = i) (windows st) of
        None \<Rightarrow> st
      | Some win \<Rightarrow> snd (win_tabs_create st win))"

subsection \<open>The capability provider built in init (lines 192 to 227)\<close>

record details =
  windowId :: jsval
  url :: jsval
  active :: jsval

text \<open>
  The identifier \<open>newTabUrl\<close> is declared once in the module, as a constant local to
  \<open>createInitialWindow\<close> (line 296). The functions of the capability provider are
  written inside \<open>init\<close>; neither they, nor \<open>init\<close>, nor the top level of the module
  declare the name (the module declares \<open>path\<close>, \<open>fs\<close>, \<open>app\<close>, \<open>session\<close>,
  \<open>BrowserWindow\<close>, \<open>Tabs\<close>, \<open>ElectronChromeExtensions\<close>, \<open>setupMenu\<close>,
  \<open>buildChromeContextMenu\<close>, \<open>setupChromeWebStore\<close>, \<open>ROOT_DIR\<close>, \<open>PATHS\<close>,
  \<open>webuiExtensionId\<close>, \<open>manifestExists\<close>, \<open>VERSION_REGEX\<close>, \<open>loadExtensions\<close>,
  \<open>getParentWindowOfTab\<close>, \<open>TabbedBrowserWindow\<close> and \<open>Browser\<close>; \<open>init\<close> declares
  \<open>webuiExtension\<close> and \<open>extensionsPath\<close>), and nothing assigns it on the global object.
  Evaluating the identifier at lines 203 and 219 therefore throws a reference error.
\<close>

definition newTabUrl_in_init :: "error + jsval" where
  "newTabUrl_in_init = Inl (ReferenceError ''newTabUrl'')"

text \<open>\<open>a || b\<close>: \<open>b\<close> is evaluated only when \<open>a\<close> is falsy.\<close>

definition js_or :: "jsval \<Rightarrow> (error + jsval) \<Rightarrow> error + jsval" where
  "js_or a b = (if truthy a then Inr a else b)"

text \<open>
  \<open>createTab\<close> (lines 192 to 207). The result is the value returned or the error thrown,
  with the state the call leaves.
\<close>

definition createTab :: "browser \<Rightarrow> details \<Rightarrow> (error + nat \<times> nat) \<times> browser" where
  "createTab st d =
     (case (if typeof (windowId d) = ''number''
            then find (\<lambda>w. JNum (int (w_id w)) = windowId d) (windows st) else None) of
        None \<Rightarrow> (Inl (WindowNotFound (windowId d)), st)
      | Some win \<Rightarrow>
          (let (t, st1) = win_tabs_create st win
           in case (if truthy (url d)
                    then (case js_or (url d) newTabUrl_in_init of
                            Inl e \<Rightarrow> Inl e
                          | Inr u \<Rightarrow> Inr (win_tab_loadURL st1 (w_id win) (tab_id t) u))
                    else Inr st1) of
                Inl e \<Rightarrow> (Inl e, st1)
              | Inr st2 \<Rightarrow>
                  (let st3 = (if (if typeof (active d) = ''boolean'' then truthy (active d) else True)
                              then win_tabs_select st2 (w_id win) (tab_id t) else st2)
                   in (Inr (tab_webContents t, tab_window t), st3))))"

definition selectTab :: "browser \<Rightarrow> nat \<Rightarrow> nat \<Rightarrow> browser" where
  "selectTab st tabId browserWindow =
     (case getWindowFromBrowserWindow st browserWindow of
        None \<Rightarrow> st
      | Some win \<Rightarrow> win_tabs_select st (w_id win) tabId)"

text \<open>
  The provider's \<open>removeTab\<close> (lines 212 to 215) resolves the window in the same way and
  hands the tab to \<open>remove(id)\<close> of the collection; see the contract above.
\<close>

text \<open>
  The provider's \<open>createWindow\<close> (lines 217 to 223): the argument object is evaluated
  before \<open>this.createWindow\<close> is called, so an error in it leaves the state as it was.
\<close>

definition createWindow_cap :: "browser \<Rightarrow> details \<Rightarrow> (error + nat) \<times> browser" where
  "createWindow_cap st d =
     (case js_or (url d) newTabUrl_in_init of
        Inl e \<Rightarrow> (Inl e, st)
      | Inr u \<Rightarrow> (let (win, st') = createWindow st u in (Inr (w_id win), st')))"

definition removeWindow :: "browser \<Rightarrow> nat \<Rightarrow> browser" where
  "removeWindow st browserWindow =
     (case getWindowFromBrowserWindow st browserWindow of
        None \<Rightarrow> st
      | Some win \<Rightarrow> tbw_destroy st win)"

subsection \<open>Reachable states used as examples, and an invariant of the identifiers\<close>


definition browser_started :: browser where
  "browser_started =
     initial_tab (snd (createWindow initial_browser (JStr ''chrome-extension:/webui/new-tab.html''))) 1"

definition browser_window_removed :: browser where
  "browser_window_removed = removeWindow browser_started 1"

text \<open>
  Identifiers handed out by the toolkit are new: every tab identifier in use, and every
  selected pointer, lies below the next identifier, and a collection knows the window it
  was built for.
\<close>

definition tabs_fresh :: "browser \<Rightarrow> bool" where
  "tabs_fresh st =
     (\<forall>w\<in>set (windows st).
        tabs_window (w_tabs w) = w_id w \<and>
        (\<forall>t\<in>set (tabList (w_tabs w)). tab_id t < next_contents (electron st)) \<and>
        (case selected (w_tabs w) of None \<Rightarrow> True | Some s \<Rightarrow> s < next_contents (electron st)))"

text \<open>The same for one window and a given next identifier.\<close>

definition window_fresh :: "nat \<Rightarrow> tabbed_window \<Rightarrow> bool" where
  "window_fresh n w =
     (tabs_window (w_tabs w) = w_id w \<and>
      (\<forall>t\<in>set (tabList (w_tabs w)). tab_id t < n) \<and>
      (case selected (w_tabs w) of None \<Rightarrow> True | Some s \<Rightarrow> s < n))"

text \<open>
  The spec's invariant of a window: no selected tab while the window has no tab, and a
  selected tab that is one of its tabs once it has one.
\<close>

definition selection_ok :: "tabs \<Rightarrow> bool" where
  "selection_ok ts =
     (case selected ts of
        None \<Rightarrow> tabList ts = []
      | Some s \<Rightarrow> s \<in> set (map tab_id (tabList ts)))"

definition windows_selected :: "browser \<Rightarrow> bool" where
  "windows_selected st = (\<forall>w\<in>set (windows st). selection_ok (w_tabs w))"

section \<open>Extension discovery (loadExtensions, lines 21 to 75)\<close>

text \<open>
  The directory tree the scan reads. A path is the list of its segments below the root of
  the tree; the entries of a directory are listed in the order \<open>fs.readdir\<close> returns
  them.
\<close>

datatype node = File | Dir "(string \<times> node) list"

type_synonym path = "string list"

fun lookup :: "node \<Rightarrow> path \<Rightarrow> node option" where
  "lookup n [] = Some n"
| "lookup File (x # xs) = None"
| "lookup (Dir es) (x # xs) = (case map_of es x of None \<Rightarrow> None | Some c \<Rightarrow> lookup c xs)"

text \<open>A \<open>Dirent\<close> of \<open>fs.readdir(path, {withFileTypes: true})\<close>.\<close>

record dirent =
  d_name :: string
  d_isDirectory :: bool

fun is_dir :: "node \<Rightarrow> bool" where
  "is_dir File = False"
| "is_dir (Dir es) = True"

definition dirents :: "(string \<times> node) list \<Rightarrow> dirent list" where
  "dirents es = map (\<lambda>(n, c). \<lparr>d_name = n, d_isDirectory = is_dir c\<rparr>) es"

definition readdir :: "node \<Rightarrow> path \<Rightarrow> error + dirent list" where
  "readdir fs p =
     (case lookup fs p of
        Some (Dir es) \<Rightarrow> Inr (dirents es)
      | _ \<Rightarrow> Inl (FsError p))"

text \<open>\<open>(await fs.stat(p)).isFile()\<close>: \<open>stat\<close> rejects when nothing is at the path.\<close>

definition stat_isFile :: "node \<Rightarrow> path \<Rightarrow> error + bool" where
  "stat_isFile fs p =
     (case lookup fs p of
        None \<Rightarrow> Inl (FsError p)
      | Some File \<Rightarrow> Inr True
      | Some (Dir es) \<Rightarrow> Inr False)"

text \<open>
  \<open>path.join(dir, name)\<close> with the name of a directory entry, which is one segment, adds
  that segment. With \<open>undefined\<close> for the name, \<open>path.join\<close> throws a type error: it
  accepts strings only.
\<close>

definition path_join :: "path \<Rightarrow> string option \<Rightarrow> error + path" where
  "path_join p seg =
     (case seg of
        None \<Rightarrow> Inl (TypeError ''ERR_INVALID_ARG_TYPE'')
      | Some s \<Rightarrow> Inr (p @ [s]))"

text \<open>\<open>manifestExists\<close> (lines 21 to 29); \<open>None\<close> is a falsy \<open>dirPath\<close>.\<close>

definition manifestExists :: "node \<Rightarrow> path option \<Rightarrow> bool" where
  "manifestExists fs dirPath =
     (case dirPath of
        None \<Rightarrow> False
      | Some p \<Rightarrow>
          (case path_join p (Some ''manifest.json'') of
             Inl e \<Rightarrow> False
           | Inr manifestPath \<Rightarrow>
               (case stat_isFile fs manifestPath of Inl e \<Rightarrow> False | Inr b \<Rightarrow> b)))"

text \<open>
  \<open>VERSION_REGEX = /^(?:\d+\.?){2,4}_\d+$/\<close>. \<open>digits1 s\<close> lists what can remain of
  \<open>s\<close> after \<open>\d+\<close> has matched at its start, \<open>version_group\<close> what can remain after
  \<open>\d+\.?\<close>, \<open>after_groups n\<close> after \<open>n\<close> such groups. The name matches when, after
  two, three or four groups, what remains is an underscore followed by one or more digits
  up to the end of the name.
\<close>

definition is_digit :: "char \<Rightarrow> bool" where
  "is_digit c = (c \<in> set ''0123456789'')"

fun digits1 :: "string \<Rightarrow> string list" where
  "digits1 [] = []"
| "digits1 (c # cs) = (if is_digit c then cs # digits1 cs else [])"

definition version_group :: "string \<Rightarrow> string list" where
  "version_group s =
     concat (map (\<lambda>r. case r of
                         [] \<Rightarrow> [r]
                       | c # cs \<Rightarrow> if c = CHR ''.'' then [cs, r] else [r])
                 (digits1 s))"

fun after_groups :: "nat \<Rightarrow> string \<Rightarrow> string list" where
  "after_groups 0 s = [s]"
| "after_groups (Suc n) s = concat (map version_group (after_groups n s))"

definition build_suffix :: "string \<Rightarrow> bool" where
  "build_suffix r =
     (case r of
        [] \<Rightarrow> False
      | c # ds \<Rightarrow> c = CHR ''_'' \<and> ds \<noteq> [] \<and> list_all is_digit ds)"

definition VERSION_REGEX :: "string \<Rightarrow> bool" where
  "VERSION_REGEX name =
     list_ex build_suffix (after_groups 2 name @ after_groups 3 name @ after_groups 4 name)"

text \<open>
  The function mapped over the candidate directories (lines 40 to 59): the path the
  candidate contributes, \<open>None\<close> for \<open>undefined\<close>, or the error that rejects its promise.
\<close>

definition extension_dir :: "node \<Rightarrow> path \<Rightarrow> dirent \<Rightarrow> error + path option" where
  "extension_dir fs extensionsPath dirEnt =
     (case path_join extensionsPath (Some (d_name dirEnt)) of
        Inl e \<Rightarrow> Inl e
      | Inr extPath \<Rightarrow>
          if manifestExists fs (Some extPath) then Inr (Some extPath)
          else
            (case readdir fs extPath of
               Inl e \<Rightarrow> Inl e
             | Inr extSubDirs \<Rightarrow>
                 (let versionDir =
                        map_option d_name
                          (find (\<lambda>dir. d_isDirectory dir \<and> VERSION_REGEX (d_name dir)) extSubDirs)
                  in case path_join extPath versionDir of
                       Inl e \<Rightarrow> Inl e
                     | Inr versionDirPath \<Rightarrow>
                         if manifestExists fs (Some versionDirPath)
                         then Inr (Some versionDirPath) else Inr None)))"

text \<open>
  \<open>Promise.all\<close>: the values in order when every promise fulfils, a rejection when one
  rejects (the model reports the first rejection in list order).
\<close>

fun promise_all :: "(error + 'a) list \<Rightarrow> error + 'a list" where
  "promise_all [] = Inr []"
| "promise_all (Inl e # rs) = Inl e"
| "promise_all (Inr v # rs) = (case promise_all rs of Inl e \<Rightarrow> Inl e | Inr vs \<Rightarrow> Inr (v # vs))"

text \<open>
  The load list: \<open>extensionDirectories.filter(Boolean)\<close>, the paths handed to
  \<open>session.loadExtension\<close> (lines 33 to 64).
\<close>

definition load_list :: "node \<Rightarrow> path \<Rightarrow> error + path list" where
  "load_list fs extensionsPath =
     (case readdir fs extensionsPath of
        Inl e \<Rightarrow> Inl e
      | Inr subDirectories \<Rightarrow>
          (case promise_all (map (extension_dir fs extensionsPath)
                                 (filter d_isDirectory subDirectories)) of
             Inl e \<Rightarrow> Inl e
           | Inr extensionDirectories \<Rightarrow> Inr (List.map_filter (\<lambda>x. x) extensionDirectories)))"

text \<open>
  \<open>loadExtensions\<close>: \<open>session.loadExtension\<close> is the toolkit's and is a parameter; a
  path it rejects is logged and skipped (lines 66 to 71).
\<close>

definition loadExtensions :: "(path \<Rightarrow> error + 'i) \<Rightarrow> node \<Rightarrow> path \<Rightarrow> error + 'i list" where
  "loadExtensions loadExtension fs extensionsPath =
     (case load_list fs extensionsPath of
        Inl e \<Rightarrow> Inl e
      | Inr paths \<Rightarrow>
          Inr (concat (map (\<lambda>extPath. case loadExtension extPath of
                                         Inl e \<Rightarrow> []
                                       | Inr extensionInfo \<Rightarrow> [extensionInfo]) paths)))"

text \<open>
  The policy in the words of the spec, for comparison with \<open>extension_dir\<close>: a version
  name is a dot-separated sequence of numbers, optionally followed by an underscore and a
  build number; a candidate contributes its own path when it holds a manifest, otherwise
  the path of a version-named subdirectory that holds a manifest, otherwise nothing, and
  never an error.
\<close>

fun split_on :: "char \<Rightarrow> string \<Rightarrow> string list" where
  "split_on c [] = [[]]"
| "split_on c (x # xs) =
     (if x = c then [] # split_on c xs
      else (case split_on c xs of [] \<Rightarrow> [[x]] | y # ys \<Rightarrow> (x # y) # ys))"

definition number :: "string \<Rightarrow> bool" where
  "number s = (s \<noteq> [] \<and> list_all is_digit s)"

definition spec_version_name :: "string \<Rightarrow> bool" where
  "spec_version_name s =
     (case split_on (CHR ''_'') s of
        [v] \<Rightarrow> list_all number (split_on (CHR ''.'') v)
      | [v, b] \<Rightarrow> list_all number (split_on (CHR ''.'') v) \<and> number b
      | _ \<Rightarrow> False)"

definition has_manifest :: "node \<Rightarrow> path \<Rightarrow> bool" where
  "has_manifest fs p = (lookup fs (p @ [''manifest.json'']) = Some File)"

definition spec_contribution :: "node \<Rightarrow> path \<Rightarrow> dirent \<Rightarrow> path option" where
  "spec_contribution fs extensionsPath dirEnt =
     (let extPath = extensionsPath @ [d_name dirEnt]
      in if has_manifest fs extPath then Some extPath
         else (case lookup fs extPath of
                 Some (Dir es) \<Rightarrow>
                   map_option (\<lambda>dir. extPath @ [d_name dir])
                     (find (\<lambda>dir. d_isDirectory dir \<and> spec_version_name (d_name dir)
                                  \<and> has_manifest fs (extPath @ [d_name dir]))
                           (dirents es))
               | _ \<Rightarrow> None))"

text \<open>
  What the scan makes of a candidate that holds a manifest or a version directory, read
  from the tree alone: \<open>version_subdir\<close> is the first subdirectory of the candidate, in
  directory order, whose name matches the pattern; \<open>covered\<close> says that the candidate
  holds a manifest or has such a subdirectory; \<open>contribution\<close> is the candidate's own
  path when it holds a manifest, otherwise the path of its version subdirectory when that
  one holds a manifest, otherwise nothing.
\<close>

definition version_subdir :: "node \<Rightarrow> path \<Rightarrow> dirent option" where
  "version_subdir fs extPath =
     (case lookup fs extPath of
        Some (Dir es) \<Rightarrow> find (\<lambda>dir. d_isDirectory dir \<and> VERSION_REGEX (d_name dir)) (dirents es)
      | _ \<Rightarrow> None)"

definition covered :: "node \<Rightarrow> path \<Rightarrow> dirent \<Rightarrow> bool" where
  "covered fs extensionsPath dirEnt =
     (has_manifest fs (extensionsPath @ [d_name dirEnt])
      \<or> version_subdir fs (extensionsPath @ [d_name dirEnt]) \<noteq> None)"

definition contribution :: "node \<Rightarrow> path \<Rightarrow> dirent \<Rightarrow> path option" where
  "contribution fs extensionsPath dirEnt =
     (let extPath = extensionsPath @ [d_name dirEnt]
      in if has_manifest fs extPath then Some extPath
         else (case version_subdir fs extPath of
                 None \<Rightarrow> None
               | Some v \<Rightarrow> if has_manifest fs (extPath @ [d_name v])
                            then Some (extPath @ [d_name v]) else None))"

text \<open>Extension roots used as examples.\<close>

definition tree_unsuffixed :: node where
  "tree_unsuffixed =
     Dir [(''extensions'',
           Dir [(''a'', Dir [(''1.2.3'', Dir [(''manifest.json'', File)]),
                            (''9.9_0'', Dir [])])])]"

definition tree_second_version :: node where
  "tree_second_version =
     Dir [(''extensions'',
           Dir [(''b'', Dir [(''1.0_0'', Dir []),
                            (''2.0_0'', Dir [(''manifest.json'', File)])])])]"

definition tree_mixed :: node where
  "tree_mixed =
     Dir [(''extensions'',
           Dir [(''plain'', Dir [(''manifest.json'', File)]),
                (''store'', Dir [(''2024.9.29.1273_0'', Dir [(''manifest.json'', File)])]),
                (''stale'', Dir [(''1.0_0'', Dir [(''readme.txt'', File)])]),
                (''notes.txt'', File)])]"

definition tree_with_other :: node where
  "tree_with_other =
     Dir [(''extensions'',
           Dir [(''plain'', Dir [(''manifest.json'', File)]),
                (''docs'', Dir [(''readme.txt'', File)])])]"

section \<open>Properties of the event bridge\<close>

text \<open>
  What the two functions do to the registry and to the emitter, in every state: a removal
  leaves no entry for the name, whatever the entry held; a registration attaches a new
  wrapper; and a removal takes nothing from the emitter unless the emitter holds the very
  function it is given.
\<close>

lemma removeExtensionListener_deletes_entry:
  "listenerMap (removeExtensionListener extensionId name callback st) name = None"
  by (simp add: removeExtensionListener_def Let_def split: option.splits)

lemma addExtensionListener_attaches_wrapper:
  "emitter (addExtensionListener extensionId name callback st) (formatIpcName name)
     = emitter st (formatIpcName name) @ [Wrapper (closures st) callback]"
  by (simp add: addExtensionListener_def ee_addListener_def Let_def split: option.splits)

lemma removeExtensionListener_keeps_emitter:
  assumes "callback \<notin> set (emitter st (formatIpcName name))"
  shows "emitter (removeExtensionListener extensionId name callback st) = emitter st"
proof -
  have "remove1 callback (rev (emitter st (formatIpcName name))) = rev (emitter st (formatIpcName name))"
    using assms by (simp add: remove1_idem)
  then show ?thesis
    by (simp add: removeExtensionListener_def ee_removeListener_def Let_def split: option.splits)
qed

text \<open>
  C1. The specification states: after every sequence of add and remove calls on one name,
  the outstanding host-side subscriptions are 1 when the local callback count is positive
  and 0 otherwise.
  The code deletes the map entry on every removal that finds one (line 31), also when other
  callbacks remain. After adding A and B and removing A, the entry is gone (count 0) while
  one subscription is outstanding and B is still attached; adding C then sends a second
  subscribe message, and two subscriptions are outstanding for the one name.
\<close>

theorem C1_subscription_count_breaks:
  "outstanding (run_bridge ''ext'' [Add ''x'' (Callback 1), Add ''x'' (Callback 2),
                                   Remove ''x'' (Callback 1)]) ''x'' = 1
   \<and> callback_count (run_bridge ''ext'' [Add ''x'' (Callback 1), Add ''x'' (Callback 2),
                                   Remove ''x'' (Callback 1)]) ''x'' = 0
   \<and> outstanding (run_bridge ''ext'' [Add ''x'' (Callback 1), Add ''x'' (Callback 2),
                                   Remove ''x'' (Callback 1), Add ''x'' (Callback 3)]) ''x'' = 2"
  by (simp add: run_bridge_def initial_renderer_def addExtensionListener_def
      removeExtensionListener_def outstanding_def callback_count_def splice1_def
      ee_addListener_def ee_removeListener_def formatIpcName_def Let_def)

text \<open>
  C2. The specification states: removing a callback that is not registered for the name
  leaves the per-name callback lists unchanged and sends nothing. With A registered for the name,
  removing B sends nothing but deletes the name's entry, so A is no longer in the registry.
\<close>

theorem C2_remove_unregistered_deletes_entry:
  "listenerMap (run_bridge ''ext'' [Add ''x'' (Callback 1)]) ''x'' = Some [Callback 1]
   \<and> listenerMap (removeExtensionListener ''ext'' ''x'' (Callback 2)
        (run_bridge ''ext'' [Add ''x'' (Callback 1)])) ''x'' = None
   \<and> sent (removeExtensionListener ''ext'' ''x'' (Callback 2)
        (run_bridge ''ext'' [Add ''x'' (Callback 1)])) = sent (run_bridge ''ext'' [Add ''x'' (Callback 1)])
   \<and> \<not> hasExtensionListener ''ext'' ''x'' (Callback 1)
        (removeExtensionListener ''ext'' ''x'' (Callback 2)
          (run_bridge ''ext'' [Add ''x'' (Callback 1)]))"
  by (simp add: run_bridge_def initial_renderer_def addExtensionListener_def
      removeExtensionListener_def hasExtensionListener_def splice1_def
      ee_addListener_def ee_removeListener_def formatIpcName_def Let_def)

text \<open>
  C3. The specification states: once a registered callback has been removed with the same
  reference, a later dispatch of the name does not call it. The emitter holds the wrapper created at
  registration, and line 42 asks the emitter to remove the callback itself, which the
  emitter does not hold: the wrapper stays, and a dispatch after the removal still calls
  the removed callback.
\<close>

theorem C3_removed_callback_still_called:
  "dispatch (run_bridge ''ext'' [Add ''x'' (Callback 1), Remove ''x'' (Callback 1)]) ''x''
     = [Wrapper 0 (Callback 1), Callback 1]
   \<and> \<not> hasExtensionListener ''ext'' ''x'' (Callback 1)
        (run_bridge ''ext'' [Add ''x'' (Callback 1), Remove ''x'' (Callback 1)])"
  by (simp add: run_bridge_def initial_renderer_def addExtensionListener_def
      removeExtensionListener_def hasExtensionListener_def dispatch_def splice1_def
      ee_addListener_def ee_removeListener_def formatIpcName_def Let_def)

section \<open>Properties of the browser controller\<close>

lemmas browser_defs =
  browser_started_def initial_browser_def createWindow_def
  initial_tab_def win_tabs_create_def tabs_create_def tabs_new_def tabs_update_def
  tab_loadURL_def removeWindow_def getWindowFromBrowserWindow_def tbw_destroy_def
  tabs_destroy_def bw_destroy_def Let_def

lemma find_w_id: "find (\<lambda>w. w_id w = i) ws = Some w \<Longrightarrow> w_id w = i \<and> w \<in> set ws"
  by (auto simp: find_Some_iff)

lemma map_w_id_update_window:
  "(\<And>w. w_id w = i \<Longrightarrow> w_id (f w) = i) \<Longrightarrow> map w_id (update_window i f ws) = map w_id ws"
  by (induction ws) auto






text \<open>
  The invariant of the identifiers holds at the start and is kept by every operation of
  the controller, so it holds in every state the controller reaches.
\<close>

lemma tabs_fresh_alt: "tabs_fresh st = (\<forall>w\<in>set (windows st). window_fresh (next_contents (electron st)) w)"
  by (simp add: tabs_fresh_def window_fresh_def)

lemma window_fresh_mono: "window_fresh n w \<Longrightarrow> n \<le> m \<Longrightarrow> window_fresh m w"
  by (fastforce simp: window_fresh_def split: option.splits)

lemma update_window_all:
  "\<forall>w\<in>set ws. P w \<Longrightarrow> (\<And>w. P w \<Longrightarrow> w_id w = i \<Longrightarrow> P (f w)) \<Longrightarrow> \<forall>w\<in>set (update_window i f ws). P w"
  by (induction ws) auto

lemma tabs_fresh_initial: "tabs_fresh initial_browser"
  by (simp add: tabs_fresh_def initial_browser_def)

lemma tabs_fresh_createWindow: "tabs_fresh st \<Longrightarrow> tabs_fresh (snd (createWindow st u))"
  by (simp add: tabs_fresh_alt createWindow_def Let_def tabs_new_def window_fresh_def)

lemma tabs_fresh_win_tabs_create:
  assumes "tabs_fresh st" "win \<in> set (windows st)"
  shows "tabs_fresh (snd (win_tabs_create st win))"
proof -
  let ?n = "next_contents (electron st)"
  have all: "\<forall>w\<in>set (windows st). window_fresh (Suc ?n) w"
    using assms by (auto simp: tabs_fresh_alt intro: window_fresh_mono)
  have wf: "window_fresh ?n win"
    using assms by (simp add: tabs_fresh_alt)
  show ?thesis
    unfolding tabs_fresh_alt
    apply (simp add: win_tabs_create_def tabs_create_def Let_def split del: if_split)
    apply (rule update_window_all[OF all])
    using wf
    apply (auto simp: window_fresh_def tabs_update_def tab_loadURL_def split: option.splits)
    done
qed

lemma find_mem: "find P xs = Some x \<Longrightarrow> x \<in> set xs"
  by (auto simp: find_Some_iff)

lemma tabs_fresh_initial_tab: "tabs_fresh st \<Longrightarrow> tabs_fresh (initial_tab st i)"
  by (auto simp: initial_tab_def tabs_fresh_win_tabs_create find_mem split: option.splits)

lemma tabs_fresh_win_tab_loadURL: "tabs_fresh st \<Longrightarrow> tabs_fresh (win_tab_loadURL st i k u)"
  unfolding tabs_fresh_alt
  apply (simp add: win_tab_loadURL_def)
  apply (erule update_window_all)
  apply (auto simp: window_fresh_def tabs_update_def tab_loadURL_def split: option.splits)
  done

lemma tabs_fresh_win_tabs_select:
  assumes "tabs_fresh st"
  shows "tabs_fresh (win_tabs_select st i k)"
proof (cases "find (\<lambda>w. w_id w = i) (windows st)")
  case None
  then show ?thesis using assms by (simp add: win_tabs_select_def)
next
  case (Some win)
  show ?thesis
  proof (cases "find (\<lambda>t. tab_id t = k) (tabList (w_tabs win))")
    case None
    then show ?thesis using assms Some
      by (simp add: win_tabs_select_def tabs_select_def tabs_get_def)
  next
    case (Some t)
    let ?n = "next_contents (electron st)"
    from \<open>find (\<lambda>w. w_id w = i) (windows st) = Some win\<close> have "win \<in> set (windows st)"
      by (rule find_mem)
    with assms have wf: "window_fresh ?n win" by (simp add: tabs_fresh_alt)
    from Some have "t \<in> set (tabList (w_tabs win))" and "tab_id t = k"
      by (auto simp: find_Some_iff)
    with wf have k: "k < ?n" by (auto simp: window_fresh_def)
    have new: "window_fresh ?n (w\<lparr>w_tabs := (w_tabs win)\<lparr>selected := Some k\<rparr>\<rparr>)" if "w_id w = i" for w
      using wf k that find_w_id[OF \<open>find (\<lambda>w. w_id w = i) (windows st) = Some win\<close>]
      by (auto simp: window_fresh_def)
    have all: "\<forall>w\<in>set (windows st). window_fresh ?n w"
      using assms by (simp add: tabs_fresh_alt)
    have "\<forall>w\<in>set (update_window i (\<lambda>w. w\<lparr>w_tabs := (w_tabs win)\<lparr>selected := Some k\<rparr>\<rparr>) (windows st)).
            window_fresh ?n w"
      by (rule update_window_all[OF all]) (rule new)
    then show ?thesis
      using Some \<open>find (\<lambda>w. w_id w = i) (windows st) = Some win\<close>
      by (simp add: tabs_fresh_alt win_tabs_select_def tabs_select_def tabs_get_def)
  qed
qed

lemma tabs_fresh_createTab:
  assumes "tabs_fresh st"
  shows "tabs_fresh (snd (createTab st d))"
proof (cases "if typeof (windowId d) = ''number''
              then find (\<lambda>w. JNum (int (w_id w)) = windowId d) (windows st) else None")
  case None
  then show ?thesis using assms by (simp add: createTab_def)
next
  case (Some win)
  then have "win \<in> set (windows st)"
    by (auto dest: find_mem split: if_splits)
  with assms have f1: "tabs_fresh (snd (win_tabs_create st win))"
    by (rule tabs_fresh_win_tabs_create)
  obtain t st1 where c: "win_tabs_create st win = (t, st1)"
    by (cases "win_tabs_create st win")
  with f1 have f1': "tabs_fresh st1" by simp
  show ?thesis
    using Some f1'
    by (simp add: createTab_def c js_or_def tabs_fresh_win_tabs_select tabs_fresh_win_tab_loadURL)
qed

lemma tabs_fresh_removeWindow: "tabs_fresh st \<Longrightarrow> tabs_fresh (removeWindow st bw)"
  unfolding tabs_fresh_alt
  apply (simp add: removeWindow_def tbw_destroy_def bw_destroy_def split: option.splits)
  apply (intro allI impI)
  apply (erule update_window_all)
  apply (simp add: window_fresh_def tabs_destroy_def)
  done

lemma tabs_fresh_selectTab: "tabs_fresh st \<Longrightarrow> tabs_fresh (selectTab st k bw)"
  by (simp add: selectTab_def tabs_fresh_win_tabs_select split: option.splits)

lemma tabs_fresh_createWindow_cap: "tabs_fresh st \<Longrightarrow> tabs_fresh (snd (createWindow_cap st d))"
  using tabs_fresh_createWindow[of st "url d"]
  by (auto simp: createWindow_cap_def js_or_def newTabUrl_in_init_def split: prod.splits)

text \<open>
  The invariant of the selection holds at the start and is kept by every operation of the
  controller as well.
\<close>

lemma windows_selected_initial: "windows_selected initial_browser"
  by (simp add: windows_selected_def initial_browser_def)

lemma windows_selected_createWindow:
  "windows_selected st \<Longrightarrow> windows_selected (snd (createWindow st u))"
  by (simp add: windows_selected_def createWindow_def Let_def tabs_new_def selection_ok_def)

lemma map_tab_id_update: "map tab_id (map (\<lambda>t. if tab_id t = n then tab_loadURL u t else t) xs) = map tab_id xs"
  by (induction xs) (auto simp: tab_loadURL_def)

lemma selection_ok_tabs_update: "selection_ok (tabs_update n (tab_loadURL u) ts) = selection_ok ts"
  using map_tab_id_update[of n u "tabList ts"]
  by (simp add: selection_ok_def tabs_update_def split: option.splits)

lemma selection_ok_tabs_create: "selection_ok ts \<Longrightarrow> selection_ok (snd (tabs_create n ts))"
  by (auto simp: selection_ok_def tabs_create_def Let_def split: option.splits)

lemma windows_selected_win_tabs_create:
  assumes "windows_selected st" "win \<in> set (windows st)"
  shows "windows_selected (snd (win_tabs_create st win))"
proof -
  have all: "\<forall>w\<in>set (windows st). selection_ok (w_tabs w)"
    using assms by (simp add: windows_selected_def)
  have ok: "selection_ok (w_tabs win)" using assms by (simp add: windows_selected_def)
  obtain t ts where c: "tabs_create (next_contents (electron st)) (w_tabs win) = (t, ts)"
    by (cases "tabs_create (next_contents (electron st)) (w_tabs win)")
  with selection_ok_tabs_create[OF ok, of "next_contents (electron st)"]
  have ts: "selection_ok ts" by simp
  show ?thesis
    unfolding windows_selected_def
    apply (simp add: win_tabs_create_def c Let_def split del: if_split)
    apply (rule update_window_all[OF all])
    using ts by (simp add: selection_ok_tabs_update)
qed

lemma windows_selected_initial_tab: "windows_selected st \<Longrightarrow> windows_selected (initial_tab st i)"
  by (auto simp: initial_tab_def windows_selected_win_tabs_create find_mem split: option.splits)

lemma windows_selected_win_tab_loadURL:
  "windows_selected st \<Longrightarrow> windows_selected (win_tab_loadURL st i k u)"
  unfolding windows_selected_def
  apply (simp add: win_tab_loadURL_def)
  apply (erule update_window_all)
  apply (simp add: selection_ok_tabs_update)
  done

lemma windows_selected_win_tabs_select:
  assumes "windows_selected st"
  shows "windows_selected (win_tabs_select st i k)"
proof (cases "find (\<lambda>w. w_id w = i) (windows st)")
  case None
  then show ?thesis using assms by (simp add: win_tabs_select_def)
next
  case (Some win)
  show ?thesis
  proof (cases "find (\<lambda>t. tab_id t = k) (tabList (w_tabs win))")
    case None
    then show ?thesis using assms Some
      by (simp add: win_tabs_select_def tabs_select_def tabs_get_def)
  next
    case (Some t)
    then have "t \<in> set (tabList (w_tabs win))" and "tab_id t = k"
      by (auto simp: find_Some_iff)
    then have new: "selection_ok ((w_tabs win)\<lparr>selected := Some k\<rparr>)"
      by (force simp: selection_ok_def)
    have all: "\<forall>w\<in>set (windows st). selection_ok (w_tabs w)"
      using assms by (simp add: windows_selected_def)
    have "\<forall>w\<in>set (update_window i (\<lambda>w. w\<lparr>w_tabs := (w_tabs win)\<lparr>selected := Some k\<rparr>\<rparr>) (windows st)).
            selection_ok (w_tabs w)"
      by (rule update_window_all[OF all]) (simp add: new)
    then show ?thesis
      using Some \<open>find (\<lambda>w. w_id w = i) (windows st) = Some win\<close>
      by (simp add: windows_selected_def win_tabs_select_def tabs_select_def tabs_get_def)
  qed
qed

lemma windows_selected_createTab:
  assumes "windows_selected st"
  shows "windows_selected (snd (createTab st d))"
proof (cases "if typeof (windowId d) = ''number''
              then find (\<lambda>w. JNum (int (w_id w)) = windowId d) (windows st) else None")
  case None
  then show ?thesis using assms by (simp add: createTab_def)
next
  case (Some win)
  then have "win \<in> set (windows st)"
    by (auto dest: find_mem split: if_splits)
  with assms have f1: "windows_selected (snd (win_tabs_create st win))"
    by (rule windows_selected_win_tabs_create)
  obtain t st1 where c: "win_tabs_create st win = (t, st1)"
    by (cases "win_tabs_create st win")
  with f1 have f1': "windows_selected st1" by simp
  show ?thesis
    using Some f1'
    by (simp add: createTab_def c js_or_def windows_selected_win_tabs_select
        windows_selected_win_tab_loadURL)
qed

lemma windows_selected_removeWindow:
  "windows_selected st \<Longrightarrow> windows_selected (removeWindow st bw)"
  unfolding windows_selected_def
  apply (simp add: removeWindow_def tbw_destroy_def bw_destroy_def split: option.splits)
  apply (intro allI impI)
  apply (erule update_window_all)
  apply (simp add: selection_ok_def tabs_destroy_def)
  done

lemma windows_selected_selectTab:
  "windows_selected st \<Longrightarrow> windows_selected (selectTab st k bw)"
  by (simp add: selectTab_def windows_selected_win_tabs_select split: option.splits)

lemma windows_selected_createWindow_cap:
  "windows_selected st \<Longrightarrow> windows_selected (snd (createWindow_cap st d))"
  using windows_selected_createWindow[of st "url d"]
  by (auto simp: createWindow_cap_def js_or_def newTabUrl_in_init_def split: prod.splits)

text \<open>
  C4. The specification states: the provider's \<open>createWindow\<close> with no URL in its details
  creates a window navigated to the new-tab page, returns its handle and does not fail. With
  \<open>details.url\<close> absent or empty, \<open>details.url || newTabUrl\<close> evaluates the identifier
  \<open>newTabUrl\<close>, which is not in scope there: the call throws a reference error and no
  window is created.
\<close>

theorem C4_createWindow_without_url_throws:
  "createWindow_cap browser_started \<lparr>windowId = JUndefined, url = JUndefined, active = JUndefined\<rparr>
     = (Inl (ReferenceError ''newTabUrl''), browser_started)
   \<and> createWindow_cap browser_started \<lparr>windowId = JUndefined, url = JStr [], active = JUndefined\<rparr>
     = (Inl (ReferenceError ''newTabUrl''), browser_started)"
  by (simp add: createWindow_cap_def js_or_def newTabUrl_in_init_def)

text \<open>
  C5, as stated: a window destroyed through \<open>removeWindow\<close> is no longer in
  \<open>windows\<close>. In the started browser window 1 is tracked and live; after
  \<open>removeWindow\<close> it is destroyed and \<open>windows\<close> still holds it.
\<close>

theorem C5_destroyed_window_stays_in_windows:
  "getWindowFromBrowserWindow browser_started 1 \<noteq> None
   \<and> 1 \<in> destroyed (electron (removeWindow browser_started 1))
   \<and> map w_id (windows (removeWindow browser_started 1)) = [1]"
  by (simp add: browser_defs)

text \<open>
  C5, amended: \<open>removeWindow\<close> on the surface of a tracked live window destroys the
  surface and leaves the window in \<open>windows\<close> (the identifiers in \<open>windows\<close> are the
  same, in the same order); afterwards the lookup by surface returns nothing for the
  destroyed surface, and no lookup by owned content returns that window.
\<close>

theorem C5_removeWindow_destroys_but_keeps_tracked:
  assumes "getWindowFromBrowserWindow st bw = Some win"
  shows "map w_id (windows (removeWindow st bw)) = map w_id (windows st)
       \<and> bw \<in> set (map w_id (windows (removeWindow st bw)))
       \<and> bw \<in> destroyed (electron (removeWindow st bw))
       \<and> getWindowFromBrowserWindow (removeWindow st bw) bw = None
       \<and> (\<forall>wc w. getWindowFromWebContents (removeWindow st bw) wc = Inr (Some w)
                   \<longrightarrow> w_id w \<noteq> bw)"
proof -
  from assms have f: "find (\<lambda>w. w_id w = bw) (windows st) = Some win"
    by (auto simp: getWindowFromBrowserWindow_def split: if_splits)
  from f have wid: "w_id win = bw" and mem: "win \<in> set (windows st)"
    using find_w_id by auto
  have st': "removeWindow st bw = tbw_destroy st win"
    using assms by (simp add: removeWindow_def)
  have ids: "map w_id (windows (tbw_destroy st win)) = map w_id (windows st)"
    by (simp add: tbw_destroy_def map_w_id_update_window)
  have d: "bw \<in> destroyed (electron (tbw_destroy st win))"
    by (simp add: tbw_destroy_def bw_destroy_def wid)
  have g: "getWindowFromBrowserWindow (tbw_destroy st win) bw = None"
    using d by (simp add: getWindowFromBrowserWindow_def)
  have nolook: "\<And>b w. getWindowFromBrowserWindow (tbw_destroy st win) b = Some w \<Longrightarrow> w_id w \<noteq> bw"
    using d by (auto simp: getWindowFromBrowserWindow_def dest!: find_w_id split: if_splits)
  have c: "\<And>wc w. getWindowFromWebContents (tbw_destroy st win) wc = Inr (Some w) \<Longrightarrow> w_id w \<noteq> bw"
    by (auto simp: getWindowFromWebContents_def dest: nolook split: sum.splits option.splits if_splits)
  from mem have "bw \<in> set (map w_id (windows st))" using wid by force
  with ids d g c show ?thesis unfolding st' by auto
qed

theorem C5_removeWindow_witness:
  "getWindowFromBrowserWindow browser_started 1 =
     Some \<lparr>w_id = 1,
           w_tabs = \<lparr>tabs_window = 1,
                     tabList = [\<lparr>tab_id = 1, tab_webContents = 1, tab_window = 1,
                                 loaded = [JStr ''chrome-extension:/webui/new-tab.html'']\<rparr>],
                     selected = Some 1\<rparr>,
           w_initialUrl = JStr ''chrome-extension:/webui/new-tab.html''\<rparr>
   \<and> map w_id (windows (removeWindow browser_started 1)) = [1]
   \<and> 1 \<in> destroyed (electron (removeWindow browser_started 1))
   \<and> getWindowFromBrowserWindow (removeWindow browser_started 1) 1 = None"
proof -
  have h: "getWindowFromBrowserWindow browser_started 1 =
     Some \<lparr>w_id = 1,
           w_tabs = \<lparr>tabs_window = 1,
                     tabList = [\<lparr>tab_id = 1, tab_webContents = 1, tab_window = 1,
                                 loaded = [JStr ''chrome-extension:/webui/new-tab.html'']\<rparr>],
                     selected = Some 1\<rparr>,
           w_initialUrl = JStr ''chrome-extension:/webui/new-tab.html''\<rparr>"
    by (simp add: browser_defs)
  have ids: "map w_id (windows browser_started) = [1]"
    by (simp add: browser_defs)
  from C5_removeWindow_destroys_but_keeps_tracked[OF h] h ids show ?thesis by simp
qed

text \<open>
  C7, as stated: \<open>createTab\<close> with a \<open>windowId\<close> that does not resolve to a live tracked
  window fails with the window-not-found error. After \<open>removeWindow\<close>, window 1 is
  destroyed and still in \<open>windows\<close>; \<open>createTab\<close> looks the identifier up in
  \<open>windows\<close> without asking whether the window is destroyed, finds it, and the error of
  line 198 is not thrown.
\<close>

theorem C7_destroyed_window_is_still_found:
  "1 \<in> destroyed (electron browser_window_removed)
   \<and> map w_id (windows browser_window_removed) = [1]
   \<and> fst (createTab browser_window_removed \<lparr>windowId = JNum 1, url = JUndefined, active = JUndefined\<rparr>)
       \<noteq> Inl (WindowNotFound (JNum 1))"
  by (simp add: browser_window_removed_def browser_defs createTab_def)

text \<open>
  C7, amended: \<open>createTab\<close> with a \<open>windowId\<close> that is the identifier of no window in
  \<open>windows\<close> fails with the window-not-found error, creates no tab and leaves the
  controller state as it was.
\<close>

theorem C7_createTab_unknown_window_fails:
  assumes "\<forall>w\<in>set (windows st). windowId d \<noteq> JNum (int (w_id w))"
  shows "createTab st d = (Inl (WindowNotFound (windowId d)), st)"
proof -
  have "find (\<lambda>w. JNum (int (w_id w)) = windowId d) (windows st) = None"
    using assms by (auto simp: find_None_iff)
  then show ?thesis by (simp add: createTab_def)
qed

theorem C7_createTab_unknown_window_witness:
  "map w_id (windows browser_started) = [1]
   \<and> createTab browser_started \<lparr>windowId = JNum 7, url = JStr ''https://example.test'', active = JUndefined\<rparr>
       = (Inl (WindowNotFound (JNum 7)), browser_started)"
proof -
  have ids: "map w_id (windows browser_started) = [1]"
    by (simp add: browser_defs)
  have h: "\<forall>w\<in>set (windows browser_started).
             windowId \<lparr>windowId = JNum 7, url = JStr ''https://example.test'', active = JUndefined\<rparr>
               \<noteq> JNum (int (w_id w))"
    by (simp add: browser_defs)
  from C7_createTab_unknown_window_fails[OF h] ids show ?thesis by simp
qed




text \<open>
  C10. \<open>createTab\<close> whose details carry no \<open>windowId\<close>, or one that is not a number,
  throws the window-not-found error: no default window is chosen, whatever windows exist,
  and the state is left as it was.
\<close>

theorem C10_createTab_without_windowId_fails:
  assumes "typeof (windowId d) \<noteq> ''number''"
  shows "createTab st d = (Inl (WindowNotFound (windowId d)), st)"
  using assms by (simp add: createTab_def)

theorem C10_createTab_without_windowId_witness:
  "typeof JUndefined \<noteq> ''number''
   \<and> map w_id (windows browser_started) = [1]
   \<and> createTab browser_started \<lparr>windowId = JUndefined, url = JStr ''https://example.test'', active = JUndefined\<rparr>
       = (Inl (WindowNotFound JUndefined), browser_started)"
proof -
  have h: "typeof (windowId \<lparr>windowId = JUndefined, url = JStr ''https://example.test'', active = JUndefined\<rparr>)
             \<noteq> ''number''"
    by simp
  have ids: "map w_id (windows browser_started) = [1]"
    by (simp add: browser_defs)
  from C10_createTab_without_windowId_fails[OF h] ids show ?thesis by simp
qed

text \<open>
  C9, as stated: for a background page, when no window is focused, the resolution returns
  the first window of \<open>windows\<close>. In the started browser no window is focused and
  \<open>windows\<close> holds window 1; the resolution of a background page returns nothing.
\<close>

theorem C9_background_page_resolves_to_nothing:
  "focused (electron browser_started) = None
   \<and> map w_id (windows browser_started) = [1]
   \<and> getWindowFromWebContents browser_started
        \<lparr>wc_id = 9, wc_type = ''backgroundPage'', wc_owner = None\<rparr> = Inr None"
  by (simp add: browser_defs getWindowFromWebContents_def getParentWindowOfTab_def)

text \<open>
  C9, amended: for a background page that is not the contents of the tracked popup, the
  resolution asks the toolkit for the focused window; when no window is focused it returns
  nothing, and when one is focused it returns the tracked window of that surface (nothing
  when the surface is destroyed or not tracked). The first window is not a fallback here.
\<close>

theorem C9_background_page_follows_toolkit_focus:
  assumes "wc_type wc = ''backgroundPage''"
      and "case popup st of None \<Rightarrow> True | Some p \<Rightarrow> pp_contents p \<noteq> Some (wc_id wc)"
  shows "getWindowFromWebContents st wc =
           (case focused (electron st) of
              None \<Rightarrow> Inr None
            | Some f \<Rightarrow> Inr (getWindowFromBrowserWindow st f))"
  using assms
  by (auto simp: getWindowFromWebContents_def getParentWindowOfTab_def split: option.splits)

theorem C9_background_page_witness:
  "wc_type \<lparr>wc_id = 9, wc_type = ''backgroundPage'', wc_owner = None\<rparr> = ''backgroundPage''
   \<and> popup browser_started = None
   \<and> focused (electron browser_started) = None
   \<and> getWindowFromWebContents browser_started
        \<lparr>wc_id = 9, wc_type = ''backgroundPage'', wc_owner = None\<rparr> = Inr None"
proof -
  have t: "wc_type \<lparr>wc_id = 9, wc_type = ''backgroundPage'', wc_owner = None\<rparr> = ''backgroundPage''"
    by simp
  have p: "popup browser_started = None"
    by (simp add: browser_defs)
  have fo: "focused (electron browser_started) = None"
    by (simp add: browser_defs)
  have h: "case popup browser_started of None \<Rightarrow> True
           | Some p \<Rightarrow> pp_contents p \<noteq> Some (wc_id \<lparr>wc_id = 9, wc_type = ''backgroundPage'', wc_owner = None\<rparr>)"
    by (simp add: p)
  from C9_background_page_follows_toolkit_focus[OF t h] p fo show ?thesis by simp
qed

section \<open>Properties of extension discovery\<close>

lemma version_names:
  "VERSION_REGEX ''2024.9.29.1273_0''"
  "VERSION_REGEX ''9.9_0''"
  "VERSION_REGEX ''1.0_0''"
  "VERSION_REGEX ''2.0_0''"
  "\<not> VERSION_REGEX ''1.2.3''"
  "\<not> VERSION_REGEX ''readme.txt''"
  "\<not> VERSION_REGEX ''manifest.json''"
  by code_simp+

lemma spec_version_names:
  "spec_version_name ''1.2.3''"
  "spec_version_name ''9.9_0''"
  "spec_version_name ''1.0_0''"
  "spec_version_name ''2.0_0''"
  by code_simp+

lemmas discovery_defs =
  extension_dir_def load_list_def readdir_def dirents_def
  manifestExists_def stat_isFile_def path_join_def has_manifest_def version_names
  Let_def List.map_filter_def

lemma lookup_append:
  "lookup n (p @ q) = (case lookup n p of None \<Rightarrow> None | Some m \<Rightarrow> lookup m q)"
  by (induction n p rule: lookup.induct) (auto split: option.splits)

lemma manifestExists_has_manifest:
  "manifestExists fs (Some p) = has_manifest fs p"
  by (auto simp: manifestExists_def has_manifest_def path_join_def stat_isFile_def
      split: option.splits node.splits)

text \<open>
  C6, as stated: a candidate without a manifest of its own contributes the path of a
  subdirectory that is named by a version, with or without the underscore and build
  number, and holds a manifest. In the first tree the candidate holds \<open>1.2.3\<close> with a
  manifest and \<open>9.9_0\<close> without one: the pattern of the code requires the underscore and
  build number, so \<open>9.9_0\<close> is the version directory, and nothing is contributed. In the
  second tree the candidate holds \<open>1.0_0\<close> without a manifest and \<open>2.0_0\<close> with one:
  the code looks at the first matching subdirectory only, and nothing is contributed.
  The load list of either root is empty.
\<close>

theorem C6_version_directory_not_contributed:
  "extension_dir tree_unsuffixed [''extensions''] \<lparr>d_name = ''a'', d_isDirectory = True\<rparr> = Inr None
   \<and> spec_contribution tree_unsuffixed [''extensions''] \<lparr>d_name = ''a'', d_isDirectory = True\<rparr>
       = Some [''extensions'', ''a'', ''1.2.3'']
   \<and> load_list tree_unsuffixed [''extensions''] = Inr []
   \<and> extension_dir tree_second_version [''extensions''] \<lparr>d_name = ''b'', d_isDirectory = True\<rparr> = Inr None
   \<and> spec_contribution tree_second_version [''extensions''] \<lparr>d_name = ''b'', d_isDirectory = True\<rparr>
       = Some [''extensions'', ''b'', ''2.0_0'']
   \<and> load_list tree_second_version [''extensions''] = Inr []"
  by (simp add: discovery_defs spec_contribution_def spec_version_names
      tree_unsuffixed_def tree_second_version_def)

text \<open>
  A covered candidate fulfils with its contribution.
\<close>

lemma extension_dir_covered:
  assumes "covered fs extensionsPath dirEnt"
  shows "extension_dir fs extensionsPath dirEnt = Inr (contribution fs extensionsPath dirEnt)"
proof (cases "has_manifest fs (extensionsPath @ [d_name dirEnt])")
  case True
  then show ?thesis
    by (simp add: extension_dir_def contribution_def path_join_def manifestExists_has_manifest)
next
  case False
  with assms obtain v where v: "version_subdir fs (extensionsPath @ [d_name dirEnt]) = Some v"
    by (auto simp: covered_def)
  then obtain es where es: "lookup fs (extensionsPath @ [d_name dirEnt]) = Some (Dir es)"
    and f: "find (\<lambda>dir. d_isDirectory dir \<and> VERSION_REGEX (d_name dir)) (dirents es) = Some v"
    by (auto simp: version_subdir_def split: option.splits node.splits)
  from False es f v show ?thesis
    by (simp add: extension_dir_def contribution_def path_join_def manifestExists_has_manifest
        readdir_def)
qed

lemma promise_all_map:
  "\<forall>x\<in>set xs. f x = Inr (c x) \<Longrightarrow> promise_all (map f xs) = Inr (map c xs)"
  by (induction xs) auto

lemma map_filter_map: "List.map_filter (\<lambda>x. x) (map c xs) = List.map_filter c xs"
  by (induction xs) (auto simp: map_filter_simps split: option.splits)

text \<open>
  C6, amended: when every candidate subdirectory of the extensions root directly holds a
  manifest file or holds a subdirectory whose name matches the pattern of the code (two to
  four groups of digits, each optionally followed by a dot, then an underscore and a build
  number), the scan does not fail and the load list is made, in the order of the
  candidates, of what each contributes: its own path for a candidate that directly holds a
  manifest file; otherwise the path of its first matching subdirectory when that
  subdirectory holds a manifest file; and nothing, without an error, when it does not.
\<close>

theorem C6_load_list_of_contributions:
  assumes "readdir fs extensionsPath = Inr subDirectories"
      and "\<forall>dirEnt\<in>set (filter d_isDirectory subDirectories). covered fs extensionsPath dirEnt"
  shows "load_list fs extensionsPath
           = Inr (List.map_filter (contribution fs extensionsPath)
                    (filter d_isDirectory subDirectories))"
proof -
  have "\<forall>dirEnt\<in>set (filter d_isDirectory subDirectories).
          extension_dir fs extensionsPath dirEnt = Inr (contribution fs extensionsPath dirEnt)"
    using assms(2) extension_dir_covered by blast
  then have "promise_all (map (extension_dir fs extensionsPath) (filter d_isDirectory subDirectories))
               = Inr (map (contribution fs extensionsPath) (filter d_isDirectory subDirectories))"
    by (rule promise_all_map)
  with assms(1) show ?thesis
    by (simp add: load_list_def map_filter_map)
qed

theorem C6_load_list_of_contributions_witness:
  "readdir tree_mixed [''extensions'']
     = Inr [\<lparr>d_name = ''plain'', d_isDirectory = True\<rparr>,
            \<lparr>d_name = ''store'', d_isDirectory = True\<rparr>,
            \<lparr>d_name = ''stale'', d_isDirectory = True\<rparr>,
            \<lparr>d_name = ''notes.txt'', d_isDirectory = False\<rparr>]
   \<and> covered tree_mixed [''extensions''] \<lparr>d_name = ''plain'', d_isDirectory = True\<rparr>
   \<and> covered tree_mixed [''extensions''] \<lparr>d_name = ''store'', d_isDirectory = True\<rparr>
   \<and> covered tree_mixed [''extensions''] \<lparr>d_name = ''stale'', d_isDirectory = True\<rparr>
   \<and> load_list tree_mixed [''extensions'']
       = Inr [[''extensions'', ''plain''], [''extensions'', ''store'', ''2024.9.29.1273_0'']]"
proof -
  let ?subs = "[\<lparr>d_name = ''plain'', d_isDirectory = True\<rparr>,
                \<lparr>d_name = ''store'', d_isDirectory = True\<rparr>,
                \<lparr>d_name = ''stale'', d_isDirectory = True\<rparr>,
                \<lparr>d_name = ''notes.txt'', d_isDirectory = False\<rparr>]"
  have rd: "readdir tree_mixed [''extensions''] = Inr ?subs"
    by (simp add: readdir_def dirents_def tree_mixed_def)
  have c1: "covered tree_mixed [''extensions''] \<lparr>d_name = ''plain'', d_isDirectory = True\<rparr>"
    by (simp add: covered_def has_manifest_def tree_mixed_def)
  have c2: "covered tree_mixed [''extensions''] \<lparr>d_name = ''store'', d_isDirectory = True\<rparr>"
    by (simp add: covered_def version_subdir_def has_manifest_def dirents_def version_names
        tree_mixed_def)
  have c3: "covered tree_mixed [''extensions''] \<lparr>d_name = ''stale'', d_isDirectory = True\<rparr>"
    by (simp add: covered_def version_subdir_def has_manifest_def dirents_def version_names
        tree_mixed_def)
  have cov: "\<forall>dirEnt\<in>set (filter d_isDirectory ?subs). covered tree_mixed [''extensions''] dirEnt"
    using c1 c2 c3 by simp
  have k1: "contribution tree_mixed [''extensions''] \<lparr>d_name = ''plain'', d_isDirectory = True\<rparr>
              = Some [''extensions'', ''plain'']"
    by (simp add: contribution_def has_manifest_def tree_mixed_def)
  have k2: "contribution tree_mixed [''extensions''] \<lparr>d_name = ''store'', d_isDirectory = True\<rparr>
              = Some [''extensions'', ''store'', ''2024.9.29.1273_0'']"
    by (simp add: contribution_def version_subdir_def has_manifest_def dirents_def version_names
        tree_mixed_def)
  have k3: "contribution tree_mixed [''extensions''] \<lparr>d_name = ''stale'', d_isDirectory = True\<rparr>
              = None"
    by (simp add: contribution_def version_subdir_def has_manifest_def dirents_def version_names
        tree_mixed_def)
  from C6_load_list_of_contributions[OF rd cov]
  have "load_list tree_mixed [''extensions'']
          = Inr [[''extensions'', ''plain''], [''extensions'', ''store'', ''2024.9.29.1273_0'']]"
    by (simp add: map_filter_simps k1 k2 k3)
  with rd c1 c2 c3 show ?thesis by simp
qed

text \<open>
  A candidate directory with neither a manifest nor a subdirectory matching the pattern:
  \<open>find\<close> returns \<open>undefined\<close>, \<open>path.join(extPath, undefined)\<close> throws, the promise of
  the candidate rejects and with it \<open>Promise.all\<close> and the whole scan, so the candidates
  that do hold a manifest are not loaded either.
\<close>

lemma directory_without_version_rejects_scan:
  "extension_dir tree_with_other [''extensions''] \<lparr>d_name = ''docs'', d_isDirectory = True\<rparr>
     = Inl (TypeError ''ERR_INVALID_ARG_TYPE'')
   \<and> \<not> covered tree_with_other [''extensions''] \<lparr>d_name = ''docs'', d_isDirectory = True\<rparr>
   \<and> load_list tree_with_other [''extensions''] = Inl (TypeError ''ERR_INVALID_ARG_TYPE'')"
  by (simp add: discovery_defs covered_def version_subdir_def tree_with_other_def)

end
